theory Spec2Isabelle
  imports Main "HOL-Library.Word"
begin

section \<open>Values, variables and errors of the Go program\<close>

text \<open>
  The package \<open>httputil\<close> is one Go file. Its functions talk to three collaborators
  (the HTTP transport, the JSON/XML codecs, the file system) and write into variables
  of the caller through \<open>reflect\<close>. The embedding keeps these explicit:
  \<^item> a Go \<open>error\<close> is a value of the datatype \<open>error\<close>; \<open>nil\<close> is \<open>None\<close>;
  \<^item> a value held in an \<open>interface{}\<close> is a \<open>val\<close>; pointers are addresses into a store
    of typed variables, so that a claim about "the caller's variable" is a claim about
    one cell of the store;
  \<^item> a panic is the outcome \<open>Panic\<close>;
  \<^item> Go's \<open>int\<close> and \<open>int64\<close> are modelled by \<open>int\<close>: the program only copies and
    compares them (status codes, byte counts), no arithmetic can overflow.
\<close>

type_synonym byte = "8 word"
type_synonym addr = nat

datatype error =
    Errorf string "int list"  \<comment> \<open>\<open>fmt.Errorf(format, args...)\<close>\<close>
  | LibError string           \<comment> \<open>an error value produced by a collaborator\<close>
  | ErrShortWrite             \<comment> \<open>\<open>io.ErrShortWrite\<close>\<close>
  | ErrNoProgress             \<comment> \<open>\<open>io.ErrNoProgress\<close>\<close>

datatype 'a exec = Panic | Return 'a

text \<open>
  The static type of a variable, as far as assignability of a \<open>[]byte\<close> or a \<open>string\<close>
  is concerned: \<open>TBytes\<close> is \<open>[]byte\<close> (or a defined type whose underlying type is
  \<open>[]byte\<close>), \<open>TString\<close> is \<open>string\<close>, \<open>TInterface\<close> is the empty interface, \<open>TOther\<close>
  is any other type.
\<close>

datatype gotype = TBytes | TString | TInterface | TOther

text \<open>
  What an \<open>interface{}\<close> argument can hold: the nil interface, a byte slice, a string
  (a Go string is a byte sequence), a pointer (\<open>VPtr None\<close> is a typed nil pointer), or
  any other non-pointer value. A nil slice and an empty slice are both \<open>VBytes []\<close>.
\<close>

datatype val =
    VNil
  | VBytes "byte list"
  | VString "byte list"
  | VPtr "addr option"
  | VOther

text \<open>
  The state threaded through every operation: the store of variables (\<open>Cells\<close>, with
  \<open>Next\<close> the next unused address), the file system (\<open>Files\<close>, path to content), and
  two counters of release calls: \<open>BodyClosed\<close> counts \<open>res.Body.Close()\<close>,
  \<open>FileClosed\<close> counts \<open>f.Close()\<close>.
\<close>

record state =
  Cells :: "addr \<rightharpoonup> gotype \<times> val"
  Next :: addr
  Files :: "string \<rightharpoonup> byte list"
  BodyClosed :: nat
  FileClosed :: nat

section \<open>The collaborators\<close>

text \<open>
  \<open>res.Body\<close> is an \<open>io.ReadCloser\<close>: successive \<open>Read\<close> calls deliver \<open>Chunks\<close> and
  then \<open>io.EOF\<close> (\<open>ReadErr = None\<close>) or a read error. \<open>WriterTo\<close> says whether the
  dynamic type of the body also implements \<open>io.WriterTo\<close>; the bodies of the standard
  transport do not, a body supplied by another \<open>RoundTripper\<close> may (for example
  \<open>io.NopCloser(strings.NewReader(...))\<close>).
\<close>

record body =
  Chunks :: "byte list list"
  ReadErr :: "error option"
  WriterTo :: bool

record response =
  StatusCode :: int
  Header :: "string \<rightharpoonup> string list"  \<comment> \<open>\<open>http.Header\<close>, a \<open>map[string][]string\<close>\<close>
  Body :: body

record request =
  Method :: string
  URL :: string
  ReqHeader :: "string \<rightharpoonup> string list"
  ReqBody :: "byte list option"  \<comment> \<open>the \<open>io.Reader\<close> handed to \<open>http.NewRequest\<close>; \<open>None\<close> is nil\<close>

text \<open>\<open>Client\<close> embeds \<open>http.Client\<close>; the only method the package calls is \<open>Do\<close>.\<close>

record client =
  Do :: "request \<Rightarrow> error + response"

text \<open>
  Everything the package imports and does not define is a field of \<open>world\<close>:
  \<^item> \<open>NewRequest_err\<close>: the error of \<open>http.NewRequest\<close> for a method and a URL, if any;
  \<^item> \<open>json_Unmarshal\<close>, \<open>xml_Unmarshal\<close>, \<open>json_Marshal\<close>, \<open>xml_Marshal\<close>: the codecs;
  \<^item> \<open>Map_GetString\<close> (\<open>goutil.Map.GetString\<close>) and \<open>Values_Encode\<close> (\<open>url.Values.Encode\<close>);
  \<^item> \<open>OpenFile_err\<close>: the error of \<open>os.OpenFile\<close> for a path, if any;
  \<^item> \<open>Quota\<close>: how many bytes the file at a path can hold before a write fails
    (\<open>None\<close>: no limit);
  \<^item> \<open>HTTPClient\<close>: the package-level default client.
\<close>

record world =
  NewRequest_err :: "string \<Rightarrow> string \<Rightarrow> error option"
  json_Unmarshal :: "byte list \<Rightarrow> val \<Rightarrow> state \<Rightarrow> error option \<times> state"
  xml_Unmarshal :: "byte list \<Rightarrow> val \<Rightarrow> state \<Rightarrow> error option \<times> state"
  json_Marshal :: "state \<Rightarrow> val \<Rightarrow> error + byte list"
  xml_Marshal :: "state \<Rightarrow> val \<Rightarrow> error + byte list"
  Map_GetString :: "(string \<times> val) list \<Rightarrow> string \<Rightarrow> string"
  Values_Encode :: "(string \<times> string list) list \<Rightarrow> byte list"
  OpenFile_err :: "string \<Rightarrow> error option"
  Quota :: "string \<Rightarrow> nat option"
  HTTPClient :: client

section \<open>formatValue\<close>

definition ReturnBytes :: int where "ReturnBytes = 0"
definition ReturnString :: int where "ReturnString = 1"
definition ReturnJSON :: int where "ReturnJSON = 2"
definition ReturnXML :: int where "ReturnXML = 3"

text \<open>The dynamic type of a value, as \<open>reflect.ValueOf(x).Type()\<close> reports it.\<close>

fun typeOf :: "val \<Rightarrow> gotype" where
  "typeOf (VBytes _) = TBytes"
| "typeOf (VString _) = TString"
| "typeOf _ = TOther"

text \<open>Go's assignability of a value of type \<open>V\<close> to a variable of type \<open>T\<close>.\<close>

fun assignable :: "gotype \<Rightarrow> gotype \<Rightarrow> bool" where
  "assignable TBytes TBytes = True"
| "assignable TString TString = True"
| "assignable TBytes TInterface = True"
| "assignable TString TInterface = True"
| "assignable _ _ = False"

text \<open>
  \<open>reflect.ValueOf(v).Elem()\<close>: \<open>ValueOf\<close> unpacks the interface, so \<open>Elem\<close> is defined
  on pointers only and panics on every other kind, the nil interface included. On a
  nil pointer it returns the zero \<open>Value\<close> (here \<open>None\<close>).
\<close>

fun reflect_Elem :: "val \<Rightarrow> addr option exec" where
  "reflect_Elem (VPtr p) = Return p"
| "reflect_Elem _ = Panic"

text \<open>
  \<open>value.Set(reflect.ValueOf(x))\<close>: panics on the zero \<open>Value\<close> and when \<open>x\<close> is not
  assignable to the variable's type; otherwise it stores \<open>x\<close> in the variable. Go
  pointers never dangle; an address outside the store is treated as a panic.
\<close>

definition reflect_Set :: "addr option \<Rightarrow> val \<Rightarrow> state \<Rightarrow> state exec" where
  "reflect_Set target x s =
     (case target of
        None \<Rightarrow> Panic
      | Some a \<Rightarrow>
          (case Cells s a of
             None \<Rightarrow> Panic
           | Some (t, old) \<Rightarrow>
               if assignable (typeOf x) t
               then Return (s\<lparr>Cells := (Cells s)(a \<mapsto> (t, x))\<rparr>)
               else Panic))"

definition formatValue :: "world \<Rightarrow> int \<Rightarrow> byte list \<Rightarrow> val \<Rightarrow> state \<Rightarrow> (error option \<times> state) exec" where
  "formatValue w returnType raw v s =
     (if returnType = ReturnBytes then
        (case reflect_Elem v of
           Panic \<Rightarrow> Panic
         | Return value \<Rightarrow>
             (case reflect_Set value (VBytes raw) s of
                Panic \<Rightarrow> Panic
              | Return s' \<Rightarrow> Return (None, s')))
      else if returnType = ReturnString then
        (case reflect_Elem v of
           Panic \<Rightarrow> Panic
         | Return value \<Rightarrow>
             (case reflect_Set value (VString raw) s of
                Panic \<Rightarrow> Panic
              | Return s' \<Rightarrow> Return (None, s')))
      else if returnType = ReturnJSON then Return (json_Unmarshal w raw v s)
      else if returnType = ReturnXML then Return (xml_Unmarshal w raw v s)
      else Return (Some (Errorf ''unknown return type'' []), s))"

text \<open>
  \<open>settable s ty v\<close>: \<open>v\<close> is a non-nil pointer to a variable of \<open>s\<close> to which a value of
  type \<open>ty\<close> can be assigned.
\<close>

definition settable :: "state \<Rightarrow> gotype \<Rightarrow> val \<Rightarrow> bool" where
  "settable s ty v =
     (case v of
        VPtr (Some a) \<Rightarrow> (case Cells s a of None \<Rightarrow> False | Some (t, old) \<Rightarrow> assignable ty t)
      | _ \<Rightarrow> False)"

section \<open>Headers\<close>

text \<open>
  \<open>textproto.CanonicalMIMEHeaderKey\<close>, which \<open>http.Header.Get\<close> and \<open>http.Header.Set\<close>
  apply to their key: a key made of header field bytes only gets its first letter and
  every letter after a hyphen in upper case and all other letters in lower case; any
  other key is returned unchanged.
\<close>

definition validHeaderFieldByte :: "char \<Rightarrow> bool" where
  "validHeaderFieldByte c =
     (let n = (of_char c :: nat) in
        (48 \<le> n \<and> n \<le> 57) \<or> (65 \<le> n \<and> n \<le> 90) \<or> (97 \<le> n \<and> n \<le> 122) \<or>
        n = 33 \<or> (35 \<le> n \<and> n \<le> 39) \<or> n = 42 \<or> n = 43 \<or> n = 45 \<or> n = 46 \<or>
        n = 94 \<or> n = 95 \<or> n = 96 \<or> n = 124 \<or> n = 126)"

definition canonByte :: "bool \<Rightarrow> char \<Rightarrow> char" where
  "canonByte upper c =
     (let n = (of_char c :: nat) in
        if upper \<and> 97 \<le> n \<and> n \<le> 122 then char_of (n - 32)
        else if \<not> upper \<and> 65 \<le> n \<and> n \<le> 90 then char_of (n + 32)
        else c)"

fun canonLoop :: "bool \<Rightarrow> string \<Rightarrow> string" where
  "canonLoop upper [] = []"
| "canonLoop upper (c # cs) =
     canonByte upper c # canonLoop (canonByte upper c = CHR ''-'') cs"

definition CanonicalMIMEHeaderKey :: "string \<Rightarrow> string" where
  "CanonicalMIMEHeaderKey s = (if list_all validHeaderFieldByte s then canonLoop True s else s)"

text \<open>\<open>h.Get(key)\<close>: the first value stored under the canonical key, \<open>""\<close> if there is none.\<close>

definition Header_Get :: "(string \<rightharpoonup> string list) \<Rightarrow> string \<Rightarrow> string" where
  "Header_Get h key =
     (case h (CanonicalMIMEHeaderKey key) of
        None \<Rightarrow> []
      | Some [] \<Rightarrow> []
      | Some (x # xs) \<Rightarrow> x)"

text \<open>\<open>h.Set(key, value)\<close>: replaces the values under the canonical key by the single value.\<close>

definition Header_Set :: "(string \<rightharpoonup> string list) \<Rightarrow> string \<Rightarrow> string \<Rightarrow> (string \<rightharpoonup> string list)" where
  "Header_Set h key v = h(CanonicalMIMEHeaderKey key \<mapsto> [v])"

section \<open>Request\<close>

text \<open>\<open>http.NewRequest(method, url, body)\<close>; an empty method means GET.\<close>

definition NewRequest :: "world \<Rightarrow> string \<Rightarrow> string \<Rightarrow> byte list option \<Rightarrow> error + request" where
  "NewRequest w method url data =
     (case NewRequest_err w method url of
        Some e \<Rightarrow> Inl e
      | None \<Rightarrow>
          Inr \<lparr>Method = (if method = [] then ''GET'' else method), URL = url,
               ReqHeader = Map.empty, ReqBody = data\<rparr>)"

text \<open>
  \<open>for k, v := range hds { req.Header.Set(k, v) }\<close>; \<open>hds\<close> is the list of the map's
  entries in the order the loop visits them (a nil map is the empty list).
\<close>

fun setHeaders :: "(string \<times> string) list \<Rightarrow> request \<Rightarrow> request" where
  "setHeaders [] req = req"
| "setHeaders ((k, v) # hds) req =
     setHeaders hds (req\<lparr>ReqHeader := Header_Set (ReqHeader req) k v\<rparr>)"

text \<open>
  \<open>header[k] = res.Header.Get(k)\<close> for every key \<open>k\<close> of \<open>res.Header\<close>: distinct keys
  write distinct entries, so the order of the loop does not matter.
\<close>

definition copyHeader :: "(string \<rightharpoonup> string list) \<Rightarrow> (string \<rightharpoonup> string)" where
  "copyHeader h = (\<lambda>k. case h k of None \<Rightarrow> None | Some vs \<Rightarrow> Some (Header_Get h k))"

text \<open>\<open>ioutil.ReadAll\<close>: everything read until \<open>io.EOF\<close> (then no error) or a read error.\<close>

definition ioutil_ReadAll :: "body \<Rightarrow> byte list \<times> error option" where
  "ioutil_ReadAll b = (concat (Chunks b), ReadErr b)"

definition Body_Close :: "state \<Rightarrow> state" where
  "Body_Close s = s\<lparr>BodyClosed := Suc (BodyClosed s)\<rparr>"

text \<open>
  \<open>Client.Request\<close>. The results are the named results \<open>(code, header, err)\<close>; \<open>code\<close>
  is 0 and \<open>header\<close> is nil (the empty map) until assigned. \<open>defer res.Body.Close()\<close>
  is registered after the body has been read without error, so it runs on the paths
  below that point, a panic of \<open>formatValue\<close> included.
\<close>

definition Client_Request ::
  "world \<Rightarrow> client \<Rightarrow> string \<Rightarrow> string \<Rightarrow> (string \<times> string) list \<Rightarrow> byte list option \<Rightarrow> int \<Rightarrow> val \<Rightarrow> state
   \<Rightarrow> (int \<times> (string \<rightharpoonup> string) \<times> error option) exec \<times> state" where
  "Client_Request w c method url hds data returnType result s =
     (case NewRequest w method url data of
        Inl e \<Rightarrow> (Return (0, Map.empty, Some e), s)
      | Inr req \<Rightarrow>
          (case Do c (setHeaders hds req) of
             Inl e \<Rightarrow> (Return (0, Map.empty, Some e), s)
           | Inr res \<Rightarrow>
               (case ioutil_ReadAll (Body res) of
                  (body, Some e) \<Rightarrow> (Return (0, copyHeader (Header res), Some e), s)
                | (body, None) \<Rightarrow>
                    (case formatValue w returnType body result s of
                       Panic \<Rightarrow> (Panic, Body_Close s)
                     | Return (Some e, s') \<Rightarrow>
                         (Return (0, copyHeader (Header res), Some e), Body_Close s')
                     | Return (None, s') \<Rightarrow>
                         (Return (StatusCode res, copyHeader (Header res), None), Body_Close s')))))"

section \<open>The verb-specific methods\<close>

definition Client_GetWithHeader ::
  "world \<Rightarrow> client \<Rightarrow> string \<Rightarrow> (string \<times> string) list \<Rightarrow> int \<Rightarrow> val \<Rightarrow> state \<Rightarrow> error option exec \<times> state" where
  "Client_GetWithHeader w c url header returnType result s =
     (case Client_Request w c ''GET'' url header None returnType result s of
        (Panic, s') \<Rightarrow> (Panic, s')
      | (Return (code, hdr, err), s') \<Rightarrow>
          if err \<noteq> None then (Return err, s')
          else if code \<noteq> 200 then (Return (Some (Errorf ''http response code; %v'' [code])), s')
          else (Return None, s'))"

definition Client_Get ::
  "world \<Rightarrow> client \<Rightarrow> string \<Rightarrow> int \<Rightarrow> val \<Rightarrow> state \<Rightarrow> error option exec \<times> state" where
  "Client_Get w c url returnType result s = Client_GetWithHeader w c url [] returnType result s"

definition Client_PostWithHeader ::
  "world \<Rightarrow> client \<Rightarrow> string \<Rightarrow> (string \<times> string) list \<Rightarrow> byte list option \<Rightarrow> int \<Rightarrow> val \<Rightarrow> state
   \<Rightarrow> error option exec \<times> state" where
  "Client_PostWithHeader w c url header body returnType result s =
     (case Client_Request w c ''POST'' url header body returnType result s of
        (Panic, s') \<Rightarrow> (Panic, s')
      | (Return (code, hdr, err), s') \<Rightarrow>
          if err \<noteq> None then (Return err, s')
          else if code \<noteq> 200 then (Return (Some (Errorf ''http response code; %v'' [code])), s')
          else (Return None, s'))"

text \<open>
  \<open>PostForm\<close>: \<open>form\<close> is the list of the entries of the \<open>goutil.Map\<close>; every key is set
  once in \<open>values\<close> to its \<open>GetString\<close>.
\<close>

definition Client_PostForm ::
  "world \<Rightarrow> client \<Rightarrow> string \<Rightarrow> (string \<times> val) list \<Rightarrow> int \<Rightarrow> val \<Rightarrow> state \<Rightarrow> error option exec \<times> state" where
  "Client_PostForm w c url form returnType result s =
     (let values = map (\<lambda>(k, x). (k, [Map_GetString w form k])) form;
          header = [(''Content-Type'', ''application/x-www-form-urlencoded'')]
      in Client_PostWithHeader w c url header (Some (Values_Encode w values)) returnType result s)"

definition Client_PostJSON ::
  "world \<Rightarrow> client \<Rightarrow> string \<Rightarrow> val \<Rightarrow> int \<Rightarrow> val \<Rightarrow> state \<Rightarrow> error option exec \<times> state" where
  "Client_PostJSON w c url body returnType result s =
     (let header = [(''Content-Type'', ''application/json'')]
      in case json_Marshal w s body of
           Inl err \<Rightarrow> (Return (Some err), s)
         | Inr bys \<Rightarrow> Client_PostWithHeader w c url header (Some bys) returnType result s)"

definition Client_PostXML ::
  "world \<Rightarrow> client \<Rightarrow> string \<Rightarrow> val \<Rightarrow> int \<Rightarrow> val \<Rightarrow> state \<Rightarrow> error option exec \<times> state" where
  "Client_PostXML w c url body returnType result s =
     (let header = [(''Content-Type'', ''application/xml'')]
      in case xml_Marshal w s body of
           Inl err \<Rightarrow> (Return (Some err), s)
         | Inr bys \<Rightarrow> Client_PostWithHeader w c url header (Some bys) returnType result s)"

section \<open>Files and the buffered writer\<close>

text \<open>
  \<open>os.OpenFile(path, O_CREATE|O_WRONLY|O_TRUNC, ...)\<close> creates or truncates the file;
  the handle is the path. \<open>(*os.File).Write\<close> appends as many bytes as the quota of
  the file allows and reports an error when that is not all of them.
  \<open>bufio.Writer\<close> is the standard buffered writer with its default size.
\<close>

record writer =
  wr :: string
  buf :: "byte list"
  werr :: "error option"

definition defaultBufSize :: nat where "defaultBufSize = 4096"

definition putFile :: "string \<Rightarrow> byte list \<Rightarrow> state \<Rightarrow> state" where
  "putFile path content s = s\<lparr>Files := (Files s)(path \<mapsto> content)\<rparr>"

definition os_OpenFile :: "world \<Rightarrow> string \<Rightarrow> state \<Rightarrow> (error + string) \<times> state" where
  "os_OpenFile w path s =
     (case OpenFile_err w path of
        Some e \<Rightarrow> (Inl e, s)
      | None \<Rightarrow> (Inr path, putFile path [] s))"

definition File_Close :: "state \<Rightarrow> state" where
  "File_Close s = s\<lparr>FileClosed := Suc (FileClosed s)\<rparr>"

definition fileContent :: "state \<Rightarrow> string \<Rightarrow> byte list" where
  "fileContent s path = (case Files s path of None \<Rightarrow> [] | Some c \<Rightarrow> c)"

definition File_Write :: "world \<Rightarrow> string \<Rightarrow> byte list \<Rightarrow> state \<Rightarrow> (nat \<times> error option) \<times> state" where
  "File_Write w path p s =
     (let n = (case Quota w path of
                 None \<Rightarrow> length p
               | Some q \<Rightarrow> min (length p) (q - length (fileContent s path)))
      in ((n, if n < length p then Some (LibError ''no space left on device'') else None),
          putFile path (fileContent s path @ take n p) s))"

definition bufio_NewWriter :: "string \<Rightarrow> writer" where
  "bufio_NewWriter f = \<lparr>wr = f, buf = [], werr = None\<rparr>"

definition Available :: "writer \<Rightarrow> nat" where
  "Available b = defaultBufSize - length (buf b)"

definition Buffered :: "writer \<Rightarrow> nat" where
  "Buffered b = length (buf b)"

text \<open>
  \<open>(*bufio.Writer).Flush\<close>: a pending error is returned again; an empty buffer is
  left alone; otherwise the buffer is written to the file, and on an error or a short
  write the unwritten rest stays in the buffer and the error stays pending.
\<close>

definition bufio_Flush :: "world \<Rightarrow> writer \<Rightarrow> state \<Rightarrow> error option \<times> writer \<times> state" where
  "bufio_Flush w b s =
     (if werr b \<noteq> None then (werr b, b, s)
      else if Buffered b = 0 then (None, b, s)
      else
        (case File_Write w (wr b) (buf b) s of
           ((n, err0), s') \<Rightarrow>
             (let err = (if n < Buffered b \<and> err0 = None then Some ErrShortWrite else err0)
              in if err \<noteq> None then (err, b\<lparr>buf := drop n (buf b), werr := err\<rparr>, s')
                 else (None, b\<lparr>buf := []\<rparr>, s'))))"

text \<open>
  The loop of \<open>(*bufio.Writer).Write\<close>,
  \<open>for len(p) > b.Available() && b.err == nil\<close>: with an empty buffer \<open>p\<close> goes to
  the file directly, otherwise the buffer is filled up from \<open>p\<close> and flushed. \<open>nn\<close>
  counts the bytes taken from \<open>p\<close>.
\<close>

function bufio_Write_loop ::
  "world \<Rightarrow> writer \<Rightarrow> byte list \<Rightarrow> nat \<Rightarrow> state \<Rightarrow> (byte list \<times> nat) \<times> writer \<times> state" where
  "bufio_Write_loop w b p nn s =
     (if length p > Available b \<and> werr b = None then
        (if Buffered b = 0 then
           (case File_Write w (wr b) p s of
              ((n, e), s') \<Rightarrow> bufio_Write_loop w (b\<lparr>werr := e\<rparr>) (drop n p) (nn + n) s')
         else
           (let n = min (Available b) (length p) in
            case bufio_Flush w (b\<lparr>buf := buf b @ take n p\<rparr>) s of
              (e, b', s') \<Rightarrow> bufio_Write_loop w b' (drop n p) (nn + n) s'))
      else ((p, nn), b, s))"
  by pat_completeness auto

termination
proof -
  have fw_ok: "n = length p" if "File_Write w path p s = ((n, None), s')"
    for w path p s n s'
    using that by (auto simp: File_Write_def Let_def split: if_splits option.splits)
  have fl_post: "werr b' \<noteq> None \<or> buf b' = []" if fl: "bufio_Flush w b s = (e, b', s')"
    for w b s e b' s'
  proof (cases "werr b")
    case (Some a)
    then have "bufio_Flush w b s = (werr b, b, s)"
      by (simp add: bufio_Flush_def)
    with fl have "b' = b" by simp
    with Some show ?thesis by simp
  next
    case None
    show ?thesis
    proof (cases "Buffered b = 0")
      case True
      with None fl have "b' = b" by (simp add: bufio_Flush_def)
      with True show ?thesis by (simp add: Buffered_def)
    next
      case False
      obtain n err0 s1 where fw: "File_Write w (wr b) (buf b) s = ((n, err0), s1)"
        by (metis surj_pair)
      show ?thesis
      proof (cases "n < Buffered b \<and> err0 = None")
        case True
        with None False fw fl show ?thesis
          by (auto simp: bufio_Flush_def Let_def)
      next
        case nshort: False
        with None False fw fl show ?thesis
          by (cases err0) (auto simp: bufio_Flush_def Let_def)
      qed
    qed
  qed
  show ?thesis
  proof (relation "measure (\<lambda>(w, b, p, nn, s).
            if werr b \<noteq> None then 0 else 2 * length p + (if buf b = [] then 0 else 1))",
         goal_cases)
    case 1
    show ?case by simp
  next
    case (2 w b p nn s x s' n e)
    then show ?case
      by (cases e) (auto dest!: fw_ok[OF sym] simp: Buffered_def)
  next
    case 3
    then show ?case
      by (auto simp: Buffered_def dest!: fl_post[OF sym])
  qed
qed

declare bufio_Write_loop.simps [simp del]

text \<open>
  \<open>(*bufio.Writer).Write\<close>: the loop above, then the rest of \<open>p\<close> is copied into the
  buffer unless an error is pending.
\<close>

definition bufio_Write :: "world \<Rightarrow> writer \<Rightarrow> byte list \<Rightarrow> state \<Rightarrow> (nat \<times> error option) \<times> writer \<times> state" where
  "bufio_Write w b p s =
     (case bufio_Write_loop w b p 0 s of
        ((p', nn), b', s') \<Rightarrow>
          if werr b' \<noteq> None then ((nn, werr b'), b', s')
          else
            (let n = min (Available b') (length p')
             in ((nn + n, None), b'\<lparr>buf := buf b' @ take n p'\<rparr>, s')))"

text \<open>
  \<open>src.WriteTo(dst)\<close> for a body that implements \<open>io.WriterTo\<close>, with \<open>dst\<close> the
  buffered writer: the body hands its chunks to \<open>dst.Write\<close> in order and stops at the
  first write error or short write; at the end it reports its read error, if any.
  The results are the number of bytes written and the error.
\<close>

fun Body_WriteTo ::
  "world \<Rightarrow> writer \<Rightarrow> byte list list \<Rightarrow> error option \<Rightarrow> int \<Rightarrow> state
   \<Rightarrow> (int \<times> error option) \<times> writer \<times> state" where
  "Body_WriteTo w dst [] rerr written s = ((written, rerr), dst, s)"
| "Body_WriteTo w dst (c # cs) rerr written s =
     (if length c > 0 then
        (case bufio_Write w dst c s of
           ((nw, ew), dst', s') \<Rightarrow>
             if ew \<noteq> None then ((written + int nw, ew), dst', s')
             else if length c \<noteq> nw then ((written + int nw, Some ErrShortWrite), dst', s')
             else Body_WriteTo w dst' cs rerr (written + int nw) s')
      else Body_WriteTo w dst cs rerr written s)"

text \<open>
  \<open>(*os.File).ReadFrom(r)\<close> for a reader that is neither a file nor a socket: the
  generic copy loop, \<open>io.Copy(fileWithoutReadFrom{f}, r)\<close>. Every non-empty chunk
  read is written to the file with \<open>Write\<close>; the loop stops at the first write error,
  at a short write, or when the reader reports \<open>io.EOF\<close> (no error) or a read error.
\<close>

fun File_ReadFrom ::
  "world \<Rightarrow> string \<Rightarrow> byte list list \<Rightarrow> error option \<Rightarrow> int \<Rightarrow> state
   \<Rightarrow> (int \<times> error option) \<times> state" where
  "File_ReadFrom w f [] rerr written s = ((written, rerr), s)"
| "File_ReadFrom w f (c # cs) rerr written s =
     (if length c > 0 then
        (case File_Write w f c s of
           ((nw, ew), s') \<Rightarrow>
             if ew \<noteq> None then ((written + int nw, ew), s')
             else if length c \<noteq> nw then ((written + int nw, Some ErrShortWrite), s')
             else File_ReadFrom w f cs rerr (written + int nw) s')
      else File_ReadFrom w f cs rerr written s)"

text \<open>
  One round of the inner loop of \<open>(*bufio.Writer).ReadFrom\<close>: up to
  \<open>maxConsecutiveEmptyReads\<close> calls of \<open>r.Read(b.buf[b.n:])\<close>, until one returns data or
  an error. A \<open>Read\<close> returns at most \<open>avail\<close> bytes of the next chunk and leaves the
  rest of the chunk to the next call. The results are the bytes read, how the round
  ended, and what is left of the reader.
\<close>

datatype readStatus = ReadOk | ReadEOF | ReadFailed error | NoProgress

definition maxConsecutiveEmptyReads :: nat where "maxConsecutiveEmptyReads = 100"

fun readSome :: "nat \<Rightarrow> nat \<Rightarrow> byte list list \<Rightarrow> error option \<Rightarrow> byte list \<times> readStatus \<times> byte list list" where
  "readSome 0 avail cs rerr = ([], NoProgress, cs)"
| "readSome (Suc k) avail [] rerr =
     ([], (case rerr of None \<Rightarrow> ReadEOF | Some e \<Rightarrow> ReadFailed e), [])"
| "readSome (Suc k) avail (c # cs) rerr =
     (if c = [] then readSome k avail cs rerr
      else if avail = 0 then readSome k avail (c # cs) rerr
      else (take avail c, ReadOk, (if drop avail c = [] then cs else drop avail c # cs)))"

text \<open>
  The loop of \<open>(*bufio.Writer).ReadFrom\<close>. A full buffer is flushed first; as soon as
  the buffer is empty the reader is handed to the file (\<open>*os.File\<close> implements
  \<open>io.ReaderFrom\<close>) and the error of that copy stays pending in the writer; otherwise
  the buffer is filled from the reader. \<open>n\<close> counts the bytes read.
\<close>

function bufio_ReadFrom_loop ::
  "world \<Rightarrow> writer \<Rightarrow> byte list list \<Rightarrow> error option \<Rightarrow> int \<Rightarrow> state
   \<Rightarrow> (int \<times> error option) \<times> writer \<times> state" where
  "bufio_ReadFrom_loop w b cs rerr n s =
     (case (if Available b = 0 then bufio_Flush w b s else (None, b, s)) of
        (err1, b1, s1) \<Rightarrow>
          if err1 \<noteq> None then ((n, err1), b1, s1)
          else if Buffered b1 = 0 then
            (case File_ReadFrom w (wr b1) cs rerr 0 s1 of
               ((nn, err), s2) \<Rightarrow> ((n + nn, err), b1\<lparr>werr := err\<rparr>, s2))
          else
            (case readSome maxConsecutiveEmptyReads (Available b1) cs rerr of
               (m, NoProgress, cs') \<Rightarrow> ((n, Some ErrNoProgress), b1, s1)
             | (m, ReadFailed e, cs') \<Rightarrow> ((n, Some e), b1, s1)
             | (m, ReadEOF, cs') \<Rightarrow>
                 if Available b1 = 0
                 then (case bufio_Flush w b1 s1 of (err, b2, s2) \<Rightarrow> ((n, err), b2, s2))
                 else ((n, None), b1, s1)
             | (m, ReadOk, cs') \<Rightarrow>
                 bufio_ReadFrom_loop w (b1\<lparr>buf := buf b1 @ m\<rparr>) cs' rerr (n + int (length m)) s1))"
  by pat_completeness auto

termination
proof -
  let ?size = "\<lambda>cs :: byte list list. sum_list (map (\<lambda>c. Suc (length c)) cs)"
  have shrink: "?size cs' < ?size cs" if "readSome k avail cs rerr = (m, ReadOk, cs')"
    for k avail cs rerr m cs'
    using that
  proof (induction k avail cs rerr rule: readSome.induct)
    case (1 avail cs rerr)
    then show ?case by simp
  next
    case (2 k avail rerr)
    then show ?case by (simp split: option.splits)
  next
    case (3 k avail c cs rerr)
    show ?case
    proof (cases "c = []")
      case True
      with 3 have "?size cs' < ?size cs" by simp
      then show ?thesis by simp
    next
      case False
      show ?thesis
      proof (cases "avail = 0")
        case True
        with False 3 show ?thesis by simp
      next
        case pos: False
        with False have "length (drop avail c) < length c"
          by (cases c) auto
        with False pos "3.prems" show ?thesis
          by (auto split: if_splits)
      qed
    qed
  qed
  show ?thesis
  proof (relation "measure (\<lambda>(w, b, cs, rerr, n, s). sum_list (map (\<lambda>c. Suc (length c)) cs))",
         goal_cases)
    case 1
    show ?case by simp
  next
    case 2
    then show ?case
      by (auto dest!: shrink[OF sym])
  qed
qed

declare bufio_ReadFrom_loop.simps [simp del]

text \<open>\<open>(*bufio.Writer).ReadFrom\<close>: a pending error is returned at once, else the loop runs.\<close>

definition bufio_ReadFrom ::
  "world \<Rightarrow> writer \<Rightarrow> byte list list \<Rightarrow> error option \<Rightarrow> state
   \<Rightarrow> (int \<times> error option) \<times> writer \<times> state" where
  "bufio_ReadFrom w b cs rerr s =
     (if werr b \<noteq> None then ((0, werr b), b, s) else bufio_ReadFrom_loop w b cs rerr 0 s)"

text \<open>
  \<open>io.Copy(dst, src)\<close> with \<open>dst\<close> the buffered writer: if the body implements
  \<open>io.WriterTo\<close> the copy is \<open>src.WriteTo(dst)\<close>; otherwise, \<open>*bufio.Writer\<close>
  implementing \<open>io.ReaderFrom\<close>, it is \<open>dst.ReadFrom(src)\<close>.
\<close>

definition io_Copy ::
  "world \<Rightarrow> writer \<Rightarrow> body \<Rightarrow> state \<Rightarrow> (int \<times> error option) \<times> writer \<times> state" where
  "io_Copy w dst src s =
     (if WriterTo src then Body_WriteTo w dst (Chunks src) (ReadErr src) 0 s
      else bufio_ReadFrom w dst (Chunks src) (ReadErr src) s)"

text \<open>
  \<open>Client.Download\<close>. \<open>defer f.Close()\<close> is registered once the file is open,
  \<open>defer res.Body.Close()\<close> once \<open>io.Copy\<close> has returned without error; deferred
  calls run at the return, last registered first. The result of \<open>buf.Flush()\<close> is
  dropped, as in the source.
\<close>

definition Client_Download ::
  "world \<Rightarrow> client \<Rightarrow> string \<Rightarrow> string \<Rightarrow> state \<Rightarrow> (int \<times> error option) \<times> state" where
  "Client_Download w c url savePath s =
     (case NewRequest w ''GET'' url None of
        Inl e \<Rightarrow> ((0, Some e), s)
      | Inr req \<Rightarrow>
          (case Do c req of
             Inl e \<Rightarrow> ((0, Some e), s)
           | Inr res \<Rightarrow>
               if StatusCode res \<noteq> 200
               then ((0, Some (Errorf ''http response code: %v'' [StatusCode res])), s)
               else
                 (case os_OpenFile w savePath s of
                    (Inl e, s1) \<Rightarrow> ((0, Some e), s1)
                  | (Inr f, s1) \<Rightarrow>
                      (case io_Copy w (bufio_NewWriter f) (Body res) s1 of
                         ((l, Some e), buf1, s2) \<Rightarrow> ((0, Some e), File_Close s2)
                       | ((l, None), buf1, s2) \<Rightarrow>
                           (case bufio_Flush w buf1 s2 of
                              (ferr, buf2, s3) \<Rightarrow> ((l, None), File_Close (Body_Close s3)))))))"

section \<open>The package-level functions\<close>

text \<open>
  \<open>&v\<close> for a parameter \<open>v\<close> of type \<open>interface{}\<close>: the parameter is a variable of its
  own, holding a copy of the argument; its address is a new address of the store.
\<close>

definition addressOf_param :: "val \<Rightarrow> state \<Rightarrow> val \<times> state" where
  "addressOf_param v s =
     (VPtr (Some (Next s)),
      s\<lparr>Cells := (Cells s)(Next s \<mapsto> (TInterface, v)), Next := Suc (Next s)\<rparr>)"

definition Request ::
  "world \<Rightarrow> string \<Rightarrow> string \<Rightarrow> (string \<times> string) list \<Rightarrow> byte list option \<Rightarrow> int \<Rightarrow> val \<Rightarrow> state
   \<Rightarrow> (int \<times> (string \<rightharpoonup> string) \<times> error option) exec \<times> state" where
  "Request w method url hds data returnType result s =
     Client_Request w (HTTPClient w) method url hds data returnType result s"

definition Get :: "world \<Rightarrow> string \<Rightarrow> int \<Rightarrow> val \<Rightarrow> state \<Rightarrow> error option exec \<times> state" where
  "Get w url returnType v s =
     (case addressOf_param v s of
        (p, s1) \<Rightarrow> Client_Get w (HTTPClient w) url returnType p s1)"

definition GetWithHeader ::
  "world \<Rightarrow> string \<Rightarrow> (string \<times> string) list \<Rightarrow> int \<Rightarrow> val \<Rightarrow> state \<Rightarrow> error option exec \<times> state" where
  "GetWithHeader w url header returnType result s =
     (case addressOf_param result s of
        (p, s1) \<Rightarrow> Client_GetWithHeader w (HTTPClient w) url header returnType p s1)"

definition PostForm ::
  "world \<Rightarrow> string \<Rightarrow> (string \<times> val) list \<Rightarrow> int \<Rightarrow> val \<Rightarrow> state \<Rightarrow> error option exec \<times> state" where
  "PostForm w url form returnType result s =
     (case addressOf_param result s of
        (p, s1) \<Rightarrow> Client_PostForm w (HTTPClient w) url form returnType p s1)"

definition PostJSON ::
  "world \<Rightarrow> string \<Rightarrow> val \<Rightarrow> int \<Rightarrow> val \<Rightarrow> state \<Rightarrow> error option exec \<times> state" where
  "PostJSON w url body returnType result s =
     (case addressOf_param result s of
        (p, s1) \<Rightarrow> Client_PostJSON w (HTTPClient w) url body returnType p s1)"

definition PostXML ::
  "world \<Rightarrow> string \<Rightarrow> val \<Rightarrow> int \<Rightarrow> val \<Rightarrow> state \<Rightarrow> error option exec \<times> state" where
  "PostXML w url body returnType result s =
     (case addressOf_param result s of
        (p, s1) \<Rightarrow> Client_PostXML w (HTTPClient w) url body returnType p s1)"

definition PostWithHeader ::
  "world \<Rightarrow> string \<Rightarrow> (string \<times> string) list \<Rightarrow> byte list option \<Rightarrow> int \<Rightarrow> val \<Rightarrow> state
   \<Rightarrow> error option exec \<times> state" where
  "PostWithHeader w url header body returnType result s =
     Client_PostWithHeader w (HTTPClient w) url header body returnType result s"

definition Download :: "world \<Rightarrow> string \<Rightarrow> string \<Rightarrow> state \<Rightarrow> (int \<times> error option) \<times> state" where
  "Download w url savePath s = Client_Download w (HTTPClient w) url savePath s"

section \<open>Conditions of a call\<close>

text \<open>
  \<open>answered w c method url hds data res\<close>: the exchange that \<open>Request\<close> performs for
  these arguments completes with the response \<open>res\<close>, that is, \<open>http.NewRequest\<close>
  builds the request and \<open>c.Do\<close>, given that request with the headers set, returns
  \<open>res\<close>.
\<close>

definition answered ::
  "world \<Rightarrow> client \<Rightarrow> string \<Rightarrow> string \<Rightarrow> (string \<times> string) list \<Rightarrow> byte list option \<Rightarrow> response \<Rightarrow> bool" where
  "answered w c method url hds data res =
     (case NewRequest w method url data of
        Inl e \<Rightarrow> False
      | Inr req \<Rightarrow> Do c (setHeaders hds req) = Inr res)"

text \<open>\<open>hasRoom w path n\<close>: the file at \<open>path\<close> can hold \<open>n\<close> bytes.\<close>

definition hasRoom :: "world \<Rightarrow> string \<Rightarrow> nat \<Rightarrow> bool" where
  "hasRoom w path n = (case Quota w path of None \<Rightarrow> True | Some q \<Rightarrow> n \<le> q)"

section \<open>A concrete world\<close>

text \<open>
  A world for running the functions on concrete inputs: every request is answered by
  the given response, request construction and \<open>os.OpenFile\<close> succeed, the decoders
  reject every input, the encoders produce the empty document, and the file at every
  path holds at most \<open>quota\<close> bytes.
\<close>

definition fixedWorld :: "response \<Rightarrow> nat option \<Rightarrow> world" where
  "fixedWorld res quota =
     \<lparr>NewRequest_err = (\<lambda>method url. None),
      json_Unmarshal = (\<lambda>raw v s. (Some (LibError ''json: syntax error''), s)),
      xml_Unmarshal = (\<lambda>raw v s. (Some (LibError ''xml: syntax error''), s)),
      json_Marshal = (\<lambda>s v. Inr []),
      xml_Marshal = (\<lambda>s v. Inr []),
      Map_GetString = (\<lambda>form k. []),
      Values_Encode = (\<lambda>values. []),
      OpenFile_err = (\<lambda>path. None),
      Quota = (\<lambda>path. quota),
      HTTPClient = \<lparr>Do = (\<lambda>req. Inr res)\<rparr>\<rparr>"

definition emptyState :: state where
  "emptyState = \<lparr>Cells = Map.empty, Next = 0, Files = Map.empty, BodyClosed = 0, FileClosed = 0\<rparr>"

text \<open>A state with one variable at address 0, of the given type and content.\<close>

definition oneVar :: "gotype \<Rightarrow> val \<Rightarrow> state" where
  "oneVar t x = \<lparr>Cells = [0 \<mapsto> (t, x)], Next = 1, Files = Map.empty, BodyClosed = 0, FileClosed = 0\<rparr>"

definition abc :: "byte list" where
  "abc = [97, 98, 99]"

definition plainResponse :: "int \<Rightarrow> byte list list \<Rightarrow> response" where
  "plainResponse code chunks =
     \<lparr>StatusCode = code, Header = [''Content-Type'' \<mapsto> [''text/plain'']],
      Body = \<lparr>Chunks = chunks, ReadErr = None, WriterTo = False\<rparr>\<rparr>"

text \<open>What a caller of \<open>Request\<close> observes of its three results (nothing after a panic).\<close>

definition codeOf :: "(int \<times> (string \<rightharpoonup> string) \<times> error option) exec \<times> state \<Rightarrow> int option" where
  "codeOf r = (case fst r of Panic \<Rightarrow> None | Return (code, header, err) \<Rightarrow> Some code)"

definition errOf :: "(int \<times> (string \<rightharpoonup> string) \<times> error option) exec \<times> state \<Rightarrow> error option" where
  "errOf r = (case fst r of Panic \<Rightarrow> None | Return (code, header, err) \<Rightarrow> err)"

definition headerOf :: "(int \<times> (string \<rightharpoonup> string) \<times> error option) exec \<times> state \<Rightarrow> string \<rightharpoonup> string" where
  "headerOf r = (case fst r of Panic \<Rightarrow> Map.empty | Return (code, header, err) \<Rightarrow> header)"

text \<open>
  Three instances: a server that answers 404, one that answers 200, and one that
  answers 200 while the disk is full. The body is \<open>abc\<close> in all three.
\<close>

definition notFoundWorld :: world where
  "notFoundWorld = fixedWorld (plainResponse 404 [abc]) None"

definition okWorld :: world where
  "okWorld = fixedWorld (plainResponse 200 [abc]) None"

definition fullDiskWorld :: world where
  "fullDiskWorld = fixedWorld (plainResponse 200 [abc]) (Some 0)"

text \<open>What a caller of a verb-specific method observes: the error it returns.\<close>

definition errReturned :: "error option exec \<times> state \<Rightarrow> error option" where
  "errReturned r = (case fst r of Panic \<Rightarrow> None | Return err \<Rightarrow> err)"

text \<open>
  A response with two values under one header name, a world in which no file can be
  opened, and a response whose body breaks off.
\<close>

definition cookieResponse :: response where
  "cookieResponse =
     \<lparr>StatusCode = 200, Header = [''Set-Cookie'' \<mapsto> [''a=1'', ''b=2'']],
      Body = \<lparr>Chunks = [abc], ReadErr = None, WriterTo = False\<rparr>\<rparr>"

definition readOnlyWorld :: world where
  "readOnlyWorld = okWorld\<lparr>OpenFile_err := (\<lambda>path. Some (LibError ''permission denied''))\<rparr>"

definition cookieWorld :: world where
  "cookieWorld = fixedWorld cookieResponse None"

definition brokenBodyWorld :: world where
  "brokenBodyWorld =
     fixedWorld \<lparr>StatusCode = 200, Header = Map.empty,
                 Body = \<lparr>Chunks = [abc], ReadErr = Some (LibError ''unexpected EOF''),
                          WriterTo = False\<rparr>\<rparr> None"

text \<open>
  A client that answers every POST with 404 and every other request with 200; a 200
  response whose body implements \<open>io.WriterTo\<close>, served while the disk is full; and a
  disk with room for three bytes.
\<close>

definition getOkPostNotFound :: client where
  "getOkPostNotFound =
     \<lparr>Do = (\<lambda>req. if Method req = ''POST'' then Inr (plainResponse 404 [abc])
                    else Inr (plainResponse 200 [abc]))\<rparr>"

definition writerToResponse :: response where
  "writerToResponse =
     \<lparr>StatusCode = 200, Header = Map.empty,
      Body = \<lparr>Chunks = [abc], ReadErr = None, WriterTo = True\<rparr>\<rparr>"

definition fullDiskWriterToWorld :: world where
  "fullDiskWriterToWorld = fixedWorld writerToResponse (Some 0)"

definition smallDiskWorld :: world where
  "smallDiskWorld = fixedWorld (plainResponse 200 [abc]) (Some 3)"

section \<open>Properties of formatValue\<close>

lemmas fixture_defs = fixedWorld_def plainResponse_def emptyState_def oneVar_def abc_def
  notFoundWorld_def okWorld_def fullDiskWorld_def cookieWorld_def cookieResponse_def
  brokenBodyWorld_def readOnlyWorld_def getOkPostNotFound_def writerToResponse_def
  fullDiskWriterToWorld_def smallDiskWorld_def codeOf_def errOf_def headerOf_def errReturned_def

lemmas kind_defs = ReturnBytes_def ReturnString_def ReturnJSON_def ReturnXML_def

text \<open>
  C7: for every byte sequence \<open>b\<close>, the empty one included, \<open>formatValue\<close> with kind
  \<open>ReturnBytes\<close> and a pointer to a variable that a \<open>[]byte\<close> can be assigned to
  returns no error and leaves exactly \<open>b\<close> in that variable; nothing else of the state
  changes.
\<close>

theorem Decode_RawBytes_copies:
  assumes "v = VPtr (Some a)" and "Cells s a = Some (t, old)" and "assignable TBytes t"
  shows "formatValue w ReturnBytes b v s
           = Return (None, s\<lparr>Cells := (Cells s)(a \<mapsto> (t, VBytes b))\<rparr>)"
  using assms by (simp add: formatValue_def reflect_Set_def)

theorem Decode_RawBytes_copies_witness:
  "formatValue okWorld ReturnBytes [] (VPtr (Some 0)) (oneVar TBytes (VBytes abc))
     = Return (None, (oneVar TBytes (VBytes abc))
                \<lparr>Cells := (Cells (oneVar TBytes (VBytes abc)))(0 \<mapsto> (TBytes, VBytes []))\<rparr>)"
  using Decode_RawBytes_copies
          [of "VPtr (Some 0)" 0 "oneVar TBytes (VBytes abc)" TBytes "VBytes abc" okWorld "[]"]
  by (simp add: oneVar_def)

text \<open>
  C8: for every kind outside \<open>ReturnBytes\<close>, \<open>ReturnString\<close>, \<open>ReturnJSON\<close>, \<open>ReturnXML\<close>
  and every byte sequence, \<open>formatValue\<close> returns the error "unknown return type" and
  the state, the caller's variable included, is the one it was given.
\<close>

theorem Decode_unsupported_kind:
  assumes "returnType \<notin> {ReturnBytes, ReturnString, ReturnJSON, ReturnXML}"
  shows "formatValue w returnType b out s = Return (Some (Errorf ''unknown return type'' []), s)"
  using assms by (simp add: formatValue_def)

theorem Decode_unsupported_kind_witness:
  "formatValue okWorld 7 abc (VPtr (Some 0)) (oneVar TBytes (VBytes []))
     = Return (Some (Errorf ''unknown return type'' []), oneVar TBytes (VBytes []))"
  using Decode_unsupported_kind [of 7 okWorld abc "VPtr (Some 0)" "oneVar TBytes (VBytes [])"]
  by (simp add: kind_defs)

lemma Bytes_not_settable_Panic:
  "\<not> settable s TBytes v \<Longrightarrow> formatValue w ReturnBytes raw v s = Panic"
  by (cases v) (auto simp: formatValue_def reflect_Set_def settable_def split: option.splits)

lemma ReturnString_neq_ReturnBytes: "ReturnString \<noteq> ReturnBytes"
  by (simp add: ReturnBytes_def ReturnString_def)

lemma String_not_settable_Panic:
  "\<not> settable s TString v \<Longrightarrow> formatValue w ReturnString raw v s = Panic"
  by (cases v)
     (auto simp: formatValue_def reflect_Set_def settable_def ReturnString_neq_ReturnBytes
           split: option.splits)

text \<open>
  C10: for the kinds \<open>ReturnBytes\<close> and \<open>ReturnString\<close> nothing checks the output
  reference: whenever it is not a non-nil pointer to a variable that the decoded value
  can be assigned to (the nil interface, a non-pointer, a nil pointer, a pointer to a
  variable of another type), \<open>formatValue\<close> panics for every payload instead of
  returning an error.
\<close>

theorem Decode_unchecked_outRef_panics:
  assumes "(returnType = ReturnBytes \<and> \<not> settable s TBytes v)
         \<or> (returnType = ReturnString \<and> \<not> settable s TString v)"
  shows "formatValue w returnType raw v s = Panic"
  using assms Bytes_not_settable_Panic String_not_settable_Panic by blast

theorem Decode_unchecked_outRef_panics_witness:
  "formatValue okWorld ReturnString abc (VPtr (Some 0)) (oneVar TBytes (VBytes [])) = Panic"
  using Decode_unchecked_outRef_panics
          [of ReturnString "oneVar TBytes (VBytes [])" "VPtr (Some 0)" okWorld abc]
  by (simp add: settable_def oneVar_def ReturnString_neq_ReturnBytes)

section \<open>Properties of Request\<close>

text \<open>
  C1 (as the code has it): \<open>code = res.StatusCode\<close> is the last statement of
  \<open>Request\<close>, after the decode. When the exchange and the body read succeed and the
  decode fails, \<open>Request\<close> returns the decode error, the header mapping of the response,
  and the status code 0, whatever status the transport observed; the body has been
  closed once.
\<close>

theorem Request_decode_failure_zero_code:
  assumes "NewRequest w method url data = Inr req"
    and "Do c (setHeaders hds req) = Inr res"
    and "ReadErr (Body res) = None"
    and "formatValue w returnType (concat (Chunks (Body res))) result s = Return (Some e, s')"
  shows "Client_Request w c method url hds data returnType result s
           = (Return (0, copyHeader (Header res), Some e), Body_Close s')"
  using assms by (simp add: Client_Request_def ioutil_ReadAll_def)

theorem Request_decode_failure_zero_code_witness:
  "Client_Request notFoundWorld (HTTPClient notFoundWorld) ''GET'' ''http://host/'' [] None 7 VNil emptyState
     = (Return (0, copyHeader (Header (plainResponse 404 [abc])),
                Some (Errorf ''unknown return type'' [])),
        Body_Close emptyState)"
  using Request_decode_failure_zero_code
          [of notFoundWorld "''GET''" "''http://host/''" None
              "\<lparr>Method = ''GET'', URL = ''http://host/'', ReqHeader = Map.empty, ReqBody = None\<rparr>"
              "HTTPClient notFoundWorld" "[]" "plainResponse 404 [abc]" 7 VNil emptyState
              "Errorf ''unknown return type'' []" emptyState]
  by (simp add: notFoundWorld_def fixedWorld_def plainResponse_def NewRequest_def
        formatValue_def kind_defs)

text \<open>
  C1 as stated fails: against a server that answers 404, with a kind that makes the
  decode fail, \<open>Request\<close> returns the decode error together with the status code 0,
  not 404.
\<close>

theorem Request_decode_failure_counterexample:
  "StatusCode (plainResponse 404 [abc]) = 404
   \<and> codeOf (Client_Request notFoundWorld (HTTPClient notFoundWorld)
               ''GET'' ''http://host/'' [] None 7 VNil emptyState) = Some 0
   \<and> errOf (Client_Request notFoundWorld (HTTPClient notFoundWorld)
              ''GET'' ''http://host/'' [] None 7 VNil emptyState)
       = Some (Errorf ''unknown return type'' [])"
  by (simp add: fixture_defs Client_Request_def NewRequest_def ioutil_ReadAll_def
        formatValue_def kind_defs)

lemma copyHeader_dom: "dom (copyHeader h) = dom h"
  by (auto simp: copyHeader_def split: option.splits)

lemma copyHeader_first:
  "h k = Some (v # vs) \<Longrightarrow> CanonicalMIMEHeaderKey k = k \<Longrightarrow> copyHeader h k = Some v"
  by (simp add: copyHeader_def Header_Get_def)

lemma Request_header:
  assumes "NewRequest w method url data = Inr req"
    and "Do c (setHeaders hds req) = Inr res"
    and "Client_Request w c method url hds data returnType result s = (Return (code, header, err), s')"
  shows "header = copyHeader (Header res)"
  using assms
  by (auto simp: Client_Request_def ioutil_ReadAll_def split: option.splits exec.splits prod.splits)

text \<open>
  C6 (as the code has it): whenever \<open>Request\<close> returns after a completed exchange, the
  header mapping it returns has one string per key, its keys are exactly the keys of
  the response header as the transport reports them, and under a key in canonical
  form (the form in which the transport reports keys) with several values it holds
  the first value, since \<open>http.Header.Get\<close> returns the first value.
\<close>

theorem Request_header_first_value:
  assumes "NewRequest w method url data = Inr req"
    and "Do c (setHeaders hds req) = Inr res"
    and "Client_Request w c method url hds data returnType result s = (Return (code, header, err), s')"
  shows "dom header = dom (Header res)
       \<and> (\<forall>k v vs. Header res k = Some (v # vs) \<and> CanonicalMIMEHeaderKey k = k
             \<longrightarrow> header k = Some v)"
  using Request_header[OF assms] copyHeader_dom copyHeader_first by blast

theorem Request_header_first_value_witness:
  "headerOf (Client_Request cookieWorld (HTTPClient cookieWorld) ''GET'' ''http://host/'' [] None
               ReturnBytes (VPtr (Some 0)) (oneVar TBytes (VBytes []))) ''Set-Cookie''
     = Some ''a=1''"
proof -
  let ?req = "\<lparr>Method = ''GET'', URL = ''http://host/'', ReqHeader = Map.empty, ReqBody = None\<rparr>"
  let ?s' = "Body_Close ((oneVar TBytes (VBytes []))
               \<lparr>Cells := (Cells (oneVar TBytes (VBytes [])))(0 \<mapsto> (TBytes, VBytes abc))\<rparr>)"
  have nr: "NewRequest cookieWorld ''GET'' ''http://host/'' None = Inr ?req"
    by (simp add: NewRequest_def cookieWorld_def fixedWorld_def)
  have ex: "Do (HTTPClient cookieWorld) (setHeaders [] ?req) = Inr cookieResponse"
    by (simp add: cookieWorld_def fixedWorld_def)
  have r: "Client_Request cookieWorld (HTTPClient cookieWorld) ''GET'' ''http://host/'' [] None
             ReturnBytes (VPtr (Some 0)) (oneVar TBytes (VBytes []))
           = (Return (200, copyHeader (Header cookieResponse), None), ?s')"
    by (simp add: Client_Request_def NewRequest_def ioutil_ReadAll_def formatValue_def
          reflect_Set_def cookieWorld_def cookieResponse_def fixedWorld_def oneVar_def)
  have canon: "CanonicalMIMEHeaderKey ''Set-Cookie'' = ''Set-Cookie''"
    by code_simp
  have two: "Header cookieResponse ''Set-Cookie'' = Some (''a=1'' # [''b=2''])"
    by (simp add: cookieResponse_def)
  from Request_header_first_value[OF nr ex r] two canon
  have "copyHeader (Header cookieResponse) ''Set-Cookie'' = Some ''a=1''"
    by blast
  with r show ?thesis
    by (simp add: headerOf_def)
qed

text \<open>
  C6 as stated fails: for a response that lists \<open>a=1\<close> and then \<open>b=2\<close> under
  \<open>Set-Cookie\<close>, the mapping returned by \<open>Request\<close> holds \<open>a=1\<close>, not the last value.
\<close>

theorem Request_header_counterexample:
  "Header cookieResponse ''Set-Cookie'' = Some [''a=1'', ''b=2'']
   \<and> headerOf (Client_Request cookieWorld (HTTPClient cookieWorld) ''GET'' ''http://host/'' [] None
                 ReturnBytes (VPtr (Some 0)) (oneVar TBytes (VBytes []))) ''Set-Cookie''
       = Some ''a=1''
   \<and> headerOf (Client_Request cookieWorld (HTTPClient cookieWorld) ''GET'' ''http://host/'' [] None
                 ReturnBytes (VPtr (Some 0)) (oneVar TBytes (VBytes []))) ''Set-Cookie''
       \<noteq> Some (last [''a=1'', ''b=2''])"
  by code_simp

section \<open>Properties of the verb-specific methods\<close>

lemma Request_answered:
  assumes "answered w c method url hds data res"
    and "ReadErr (Body res) = None"
    and "formatValue w returnType (concat (Chunks (Body res))) result s = Return (None, s')"
  shows "Client_Request w c method url hds data returnType result s
           = (Return (StatusCode res, copyHeader (Header res), None), Body_Close s')"
proof (cases "NewRequest w method url data")
  case (Inl e)
  with assms(1) show ?thesis by (simp add: answered_def)
next
  case (Inr req)
  with assms(1) have "Do c (setHeaders hds req) = Inr res" by (simp add: answered_def)
  with Inr assms(2,3) show ?thesis
    by (simp add: Client_Request_def ioutil_ReadAll_def)
qed

lemma GetWithHeader_nonOK:
  assumes "answered w c ''GET'' url header None res"
    and "StatusCode res \<noteq> 200"
    and "ReadErr (Body res) = None"
    and "formatValue w returnType (concat (Chunks (Body res))) result s = Return (None, s')"
  shows "Client_GetWithHeader w c url header returnType result s
           = (Return (Some (Errorf ''http response code; %v'' [StatusCode res])), Body_Close s')"
  using assms(2) Request_answered[OF assms(1,3,4)]
  by (simp add: Client_GetWithHeader_def)

lemma PostWithHeader_nonOK:
  assumes "answered w c ''POST'' url header body res"
    and "StatusCode res \<noteq> 200"
    and "ReadErr (Body res) = None"
    and "formatValue w returnType (concat (Chunks (Body res))) result s = Return (None, s')"
  shows "Client_PostWithHeader w c url header body returnType result s
           = (Return (Some (Errorf ''http response code; %v'' [StatusCode res])), Body_Close s')"
  using assms(2) Request_answered[OF assms(1,3,4)]
  by (simp add: Client_PostWithHeader_def)

text \<open>
  C2 (as the code has it): the six methods test the error of \<open>Request\<close> before the
  status code. For every call of \<open>Get\<close>, \<open>GetWithHeader\<close>, \<open>PostForm\<close>, \<open>PostJSON\<close>,
  \<open>PostXML\<close> or \<open>PostWithHeader\<close> whose own exchange (the request this call builds,
  sent through this client) completes with a response whose status is not 200, and
  whose body is read and decoded without error, the call returns the error
  "http response code; %v" carrying the observed status code, whatever the body is.
  For \<open>PostJSON\<close> and \<open>PostXML\<close> the exchange is the one for the encoded request body.
\<close>

theorem nonOK_status_after_decode:
  assumes "StatusCode res \<noteq> 200"
    and "ReadErr (Body res) = None"
    and "formatValue w returnType (concat (Chunks (Body res))) result s = Return (None, s')"
  shows "(answered w c ''GET'' url [] None res \<longrightarrow>
            Client_Get w c url returnType result s
              = (Return (Some (Errorf ''http response code; %v'' [StatusCode res])), Body_Close s'))
       \<and> (answered w c ''GET'' url header None res \<longrightarrow>
            Client_GetWithHeader w c url header returnType result s
              = (Return (Some (Errorf ''http response code; %v'' [StatusCode res])), Body_Close s'))
       \<and> (answered w c ''POST'' url [(''Content-Type'', ''application/x-www-form-urlencoded'')]
              (Some (Values_Encode w (map (\<lambda>(k, x). (k, [Map_GetString w form k])) form))) res \<longrightarrow>
            Client_PostForm w c url form returnType result s
              = (Return (Some (Errorf ''http response code; %v'' [StatusCode res])), Body_Close s'))
       \<and> (json_Marshal w s jsonBody = Inr jsonBytes
            \<and> answered w c ''POST'' url [(''Content-Type'', ''application/json'')] (Some jsonBytes) res \<longrightarrow>
            Client_PostJSON w c url jsonBody returnType result s
              = (Return (Some (Errorf ''http response code; %v'' [StatusCode res])), Body_Close s'))
       \<and> (xml_Marshal w s xmlBody = Inr xmlBytes
            \<and> answered w c ''POST'' url [(''Content-Type'', ''application/xml'')] (Some xmlBytes) res \<longrightarrow>
            Client_PostXML w c url xmlBody returnType result s
              = (Return (Some (Errorf ''http response code; %v'' [StatusCode res])), Body_Close s'))
       \<and> (answered w c ''POST'' url header body res \<longrightarrow>
            Client_PostWithHeader w c url header body returnType result s
              = (Return (Some (Errorf ''http response code; %v'' [StatusCode res])), Body_Close s'))"
  using GetWithHeader_nonOK[OF _ assms] PostWithHeader_nonOK[OF _ assms]
  by (simp add: Client_Get_def Client_PostForm_def Client_PostJSON_def Client_PostXML_def)

theorem nonOK_status_after_decode_witness:
  "Client_PostWithHeader okWorld getOkPostNotFound ''http://host/'' [(''X-Trace'', ''1'')] (Some abc)
       ReturnBytes (VPtr (Some 0)) (oneVar TBytes (VBytes []))
     = (Return (Some (Errorf ''http response code; %v'' [404])),
        Body_Close ((oneVar TBytes (VBytes []))
          \<lparr>Cells := (Cells (oneVar TBytes (VBytes [])))(0 \<mapsto> (TBytes, VBytes abc))\<rparr>))
   \<and> Client_PostJSON okWorld getOkPostNotFound ''http://host/'' VOther ReturnBytes
       (VPtr (Some 0)) (oneVar TBytes (VBytes []))
     = (Return (Some (Errorf ''http response code; %v'' [404])),
        Body_Close ((oneVar TBytes (VBytes []))
          \<lparr>Cells := (Cells (oneVar TBytes (VBytes [])))(0 \<mapsto> (TBytes, VBytes abc))\<rparr>))
   \<and> Client_Get notFoundWorld (HTTPClient notFoundWorld) ''http://host/'' ReturnBytes
       (VPtr (Some 0)) (oneVar TBytes (VBytes []))
     = (Return (Some (Errorf ''http response code; %v'' [404])),
        Body_Close ((oneVar TBytes (VBytes []))
          \<lparr>Cells := (Cells (oneVar TBytes (VBytes [])))(0 \<mapsto> (TBytes, VBytes abc))\<rparr>))"
proof -
  let ?s = "oneVar TBytes (VBytes [])"
  let ?s' = "?s\<lparr>Cells := (Cells ?s)(0 \<mapsto> (TBytes, VBytes abc))\<rparr>"
  let ?res = "plainResponse 404 [abc]"
  have h1: "StatusCode ?res \<noteq> 200" and h2: "ReadErr (Body ?res) = None"
    and code: "StatusCode ?res = 404"
    by (simp_all add: plainResponse_def)
  have d1: "formatValue okWorld ReturnBytes (concat (Chunks (Body ?res))) (VPtr (Some 0)) ?s
              = Return (None, ?s')"
    and d2: "formatValue notFoundWorld ReturnBytes (concat (Chunks (Body ?res))) (VPtr (Some 0)) ?s
              = Return (None, ?s')"
    by (simp_all add: formatValue_def reflect_Set_def plainResponse_def oneVar_def)
  have a1: "answered okWorld getOkPostNotFound ''POST'' ''http://host/'' [(''X-Trace'', ''1'')]
              (Some abc) ?res"
    and a2: "answered okWorld getOkPostNotFound ''POST'' ''http://host/''
              [(''Content-Type'', ''application/json'')] (Some []) ?res"
    by (simp_all add: answered_def NewRequest_def okWorld_def fixedWorld_def getOkPostNotFound_def)
  have a3: "answered notFoundWorld (HTTPClient notFoundWorld) ''GET'' ''http://host/'' [] None ?res"
    by (simp add: answered_def NewRequest_def notFoundWorld_def fixedWorld_def)
  have m: "json_Marshal okWorld ?s VOther = Inr []"
    by (simp add: okWorld_def fixedWorld_def)
  from nonOK_status_after_decode[OF h1 h2 d1, where c = getOkPostNotFound
         and url = "''http://host/''" and jsonBody = VOther and jsonBytes = "[]"
         and header = "[(''X-Trace'', ''1'')]" and body = "Some abc"] a1 a2 m code
  have p: "Client_PostWithHeader okWorld getOkPostNotFound ''http://host/'' [(''X-Trace'', ''1'')] (Some abc)
             ReturnBytes (VPtr (Some 0)) ?s
           = (Return (Some (Errorf ''http response code; %v'' [404])), Body_Close ?s')"
    and j: "Client_PostJSON okWorld getOkPostNotFound ''http://host/'' VOther ReturnBytes
             (VPtr (Some 0)) ?s
           = (Return (Some (Errorf ''http response code; %v'' [404])), Body_Close ?s')"
    by simp_all
  from nonOK_status_after_decode[OF h1 h2 d2, where c = "HTTPClient notFoundWorld"
         and url = "''http://host/''"] a3 code
  have g: "Client_Get notFoundWorld (HTTPClient notFoundWorld) ''http://host/'' ReturnBytes
             (VPtr (Some 0)) ?s
           = (Return (Some (Errorf ''http response code; %v'' [404])), Body_Close ?s')"
    by simp
  from p j g show ?thesis by simp
qed

text \<open>
  C2 as stated fails: against a server that answers 404, a call of \<open>Get\<close> whose decode
  fails returns the decode error, not the error that carries the status code.
\<close>

theorem nonOK_status_counterexample:
  "StatusCode (plainResponse 404 [abc]) = 404
   \<and> errReturned (Client_Get notFoundWorld (HTTPClient notFoundWorld) ''http://host/'' 7 VNil emptyState)
       = Some (Errorf ''unknown return type'' [])
   \<and> errReturned (Client_Get notFoundWorld (HTTPClient notFoundWorld) ''http://host/'' 7 VNil emptyState)
       \<noteq> Some (Errorf ''http response code; %v'' [404])"
  by code_simp

section \<open>Properties of the package-level functions\<close>

text \<open>
  C4: the package-level \<open>Get\<close> hands \<open>&v\<close>, the address of its own parameter, to the
  method, where \<open>PostWithHeader\<close> and \<open>Request\<close> hand \<open>result\<close> on unchanged. With kind
  \<open>ReturnBytes\<close>, a caller's variable at address 0 and the body \<open>abc\<close>: the method
  \<open>Client.Get\<close> on the default client leaves \<open>abc\<close> in the caller's variable, the
  package-level \<open>Get\<close> with the same arguments leaves the caller's variable as it was
  and stores \<open>abc\<close> in its own parameter; both return no error.
\<close>

theorem package_Get_misses_caller_variable:
  "Cells (snd (Client_Get okWorld (HTTPClient okWorld) ''http://host/'' ReturnBytes
                 (VPtr (Some 0)) (oneVar TBytes (VBytes [])))) 0 = Some (TBytes, VBytes abc)
   \<and> fst (Client_Get okWorld (HTTPClient okWorld) ''http://host/'' ReturnBytes
                 (VPtr (Some 0)) (oneVar TBytes (VBytes []))) = Return None
   \<and> Cells (snd (Get okWorld ''http://host/'' ReturnBytes
                 (VPtr (Some 0)) (oneVar TBytes (VBytes [])))) 0 = Some (TBytes, VBytes [])
   \<and> Cells (snd (Get okWorld ''http://host/'' ReturnBytes
                 (VPtr (Some 0)) (oneVar TBytes (VBytes [])))) 1 = Some (TInterface, VBytes abc)
   \<and> fst (Get okWorld ''http://host/'' ReturnBytes
                 (VPtr (Some 0)) (oneVar TBytes (VBytes []))) = Return None"
  by code_simp

section \<open>Properties of Download and of resource release\<close>

text \<open>
  C3: the two \<open>defer res.Body.Close()\<close> statements come after early returns. The
  body is closed once on the success paths of \<open>Download\<close> and \<open>Request\<close> (and the file
  once), but it is never closed when \<open>Download\<close> meets a status other than 200, when
  \<open>os.OpenFile\<close> fails, when \<open>io.Copy\<close> in \<open>Download\<close> fails (the file is closed
  once there), or when the body read in \<open>Request\<close> fails.
\<close>

theorem body_not_closed_on_early_returns:
  "BodyClosed (snd (Client_Download okWorld (HTTPClient okWorld) ''http://host/f'' ''/tmp/f'' emptyState)) = 1
   \<and> FileClosed (snd (Client_Download okWorld (HTTPClient okWorld) ''http://host/f'' ''/tmp/f'' emptyState)) = 1
   \<and> BodyClosed (snd (Client_Request okWorld (HTTPClient okWorld) ''GET'' ''http://host/'' [] None
                        ReturnBytes (VPtr (Some 0)) (oneVar TBytes (VBytes [])))) = 1
   \<and> fst (Client_Download notFoundWorld (HTTPClient notFoundWorld) ''http://host/f'' ''/tmp/f'' emptyState)
       = (0, Some (Errorf ''http response code: %v'' [404]))
   \<and> BodyClosed (snd (Client_Download notFoundWorld (HTTPClient notFoundWorld) ''http://host/f'' ''/tmp/f'' emptyState)) = 0
   \<and> fst (Client_Download readOnlyWorld (HTTPClient readOnlyWorld) ''http://host/f'' ''/tmp/f'' emptyState)
       = (0, Some (LibError ''permission denied''))
   \<and> BodyClosed (snd (Client_Download readOnlyWorld (HTTPClient readOnlyWorld) ''http://host/f'' ''/tmp/f'' emptyState)) = 0
   \<and> fst (Client_Download brokenBodyWorld (HTTPClient brokenBodyWorld) ''http://host/f'' ''/tmp/f'' emptyState)
       = (0, Some (LibError ''unexpected EOF''))
   \<and> FileClosed (snd (Client_Download brokenBodyWorld (HTTPClient brokenBodyWorld) ''http://host/f'' ''/tmp/f'' emptyState)) = 1
   \<and> BodyClosed (snd (Client_Download brokenBodyWorld (HTTPClient brokenBodyWorld) ''http://host/f'' ''/tmp/f'' emptyState)) = 0
   \<and> errOf (Client_Request brokenBodyWorld (HTTPClient brokenBodyWorld) ''GET'' ''http://host/'' [] None
                        ReturnBytes (VPtr (Some 0)) (oneVar TBytes (VBytes [])))
       = Some (LibError ''unexpected EOF'')
   \<and> BodyClosed (snd (Client_Request brokenBodyWorld (HTTPClient brokenBodyWorld) ''GET'' ''http://host/'' [] None
                        ReturnBytes (VPtr (Some 0)) (oneVar TBytes (VBytes [])))) = 0"
  by code_simp

text \<open>
  C5: the result of \<open>buf.Flush()\<close> is dropped. With an ordinary body the bytes go to
  the file inside \<open>io.Copy\<close>, whose error \<open>Download\<close> returns. With a body that
  implements \<open>io.WriterTo\<close>, three bytes long, and a disk that accepts no byte:
  \<open>io.Copy\<close> returns 3 and no error with the three bytes in the buffer, the flush of
  that buffer fails with "no space left on device", and \<open>Download\<close> returns 3 and no
  error while the file is empty.
\<close>

theorem Download_swallows_flush_error:
  "fst (io_Copy fullDiskWriterToWorld (bufio_NewWriter ''/tmp/f'') (Body writerToResponse)
          (putFile ''/tmp/f'' [] emptyState)) = (3, None)
   \<and> buf (fst (snd (io_Copy fullDiskWriterToWorld (bufio_NewWriter ''/tmp/f'') (Body writerToResponse)
          (putFile ''/tmp/f'' [] emptyState)))) = abc
   \<and> fst (bufio_Flush fullDiskWriterToWorld \<lparr>wr = ''/tmp/f'', buf = abc, werr = None\<rparr>
          (putFile ''/tmp/f'' [] emptyState))
       = Some (LibError ''no space left on device'')
   \<and> fst (Client_Download fullDiskWriterToWorld (HTTPClient fullDiskWriterToWorld)
          ''http://host/f'' ''/tmp/f'' emptyState)
       = (3, None)
   \<and> Files (snd (Client_Download fullDiskWriterToWorld (HTTPClient fullDiskWriterToWorld)
          ''http://host/f'' ''/tmp/f'' emptyState)) ''/tmp/f'' = Some []
   \<and> fst (Client_Download fullDiskWorld (HTTPClient fullDiskWorld)
          ''http://host/f'' ''/tmp/f'' emptyState)
       = (0, Some (LibError ''no space left on device''))"
  by code_simp

lemma hasRoom_mono: "hasRoom w path n \<Longrightarrow> m \<le> n \<Longrightarrow> hasRoom w path m"
  by (auto simp: hasRoom_def split: option.splits)

lemma putFile_same: "Files s path = Some c \<Longrightarrow> putFile path c s = s"
proof -
  assume "Files s path = Some c"
  then have "(Files s)(path \<mapsto> c) = Files s" by (rule map_upd_triv)
  then show ?thesis by (simp only: putFile_def) simp
qed

lemma putFile_twice: "putFile path c' (putFile path c s) = putFile path c' s"
  by (simp add: putFile_def)

lemma Files_putFile: "Files (putFile path c s) path = Some c"
  by (simp add: putFile_def)

lemma fileContent_Some: "Files s path = Some c \<Longrightarrow> fileContent s path = c"
  by (simp add: fileContent_def)

lemma File_Write_hasRoom:
  assumes "Files s path = Some c" and "hasRoom w path (length c + length p)"
  shows "File_Write w path p s = ((length p, None), putFile path (c @ p) s)"
  using assms
  by (auto simp: File_Write_def hasRoom_def fileContent_Some Let_def split: option.splits)

lemma File_ReadFrom_hasRoom:
  assumes "Files s f = Some c" and "hasRoom w f (length c + length (concat cs))"
  shows "File_ReadFrom w f cs rerr written s
           = ((written + int (length (concat cs)), rerr), putFile f (c @ concat cs) s)"
  using assms
proof (induction cs arbitrary: s c written)
  case Nil
  then show ?case by (simp add: putFile_same)
next
  case (Cons x cs)
  show ?case
  proof (cases "x = []")
    case True
    with Cons.IH[OF Cons.prems(1), of written] Cons.prems(2) show ?thesis by simp
  next
    case False
    have room1: "hasRoom w f (length c + length x)"
      using Cons.prems(2) by (rule hasRoom_mono) simp
    have fw: "File_Write w f x s = ((length x, None), putFile f (c @ x) s)"
      using File_Write_hasRoom[OF Cons.prems(1) room1] .
    have room2: "hasRoom w f (length (c @ x) + length (concat cs))"
      using Cons.prems(2) by (rule hasRoom_mono) simp
    have "File_ReadFrom w f cs rerr (written + int (length x)) (putFile f (c @ x) s)
            = ((written + int (length x) + int (length (concat cs)), rerr),
               putFile f ((c @ x) @ concat cs) (putFile f (c @ x) s))"
      by (rule Cons.IH[OF Files_putFile room2])
    with False fw show ?thesis
      by (simp add: putFile_twice)
  qed
qed

lemma bufio_ReadFrom_fresh:
  assumes "Files s f = Some c" and "hasRoom w f (length c + length (concat cs))"
  shows "bufio_ReadFrom w (bufio_NewWriter f) cs rerr s
           = ((int (length (concat cs)), rerr), (bufio_NewWriter f)\<lparr>werr := rerr\<rparr>,
              putFile f (c @ concat cs) s)"
proof -
  have "bufio_ReadFrom_loop w (bufio_NewWriter f) cs rerr 0 s
          = ((int (length (concat cs)), rerr), (bufio_NewWriter f)\<lparr>werr := rerr\<rparr>,
             putFile f (c @ concat cs) s)"
    by (subst bufio_ReadFrom_loop.simps)
       (simp add: bufio_NewWriter_def Available_def Buffered_def defaultBufSize_def
          File_ReadFrom_hasRoom[OF assms])
  then show ?thesis
    by (simp add: bufio_ReadFrom_def bufio_NewWriter_def)
qed


lemma bufio_Flush_hasRoom:
  assumes "werr b = None" and "Files s (wr b) = Some c"
    and "hasRoom w (wr b) (length c + length (buf b))"
  shows "bufio_Flush w b s = (None, b\<lparr>buf := []\<rparr>, putFile (wr b) (c @ buf b) s)"
proof (cases "buf b = []")
  case True
  moreover have "b\<lparr>buf := []\<rparr> = b"
    using True by simp
  ultimately show ?thesis
    using assms by (simp add: bufio_Flush_def Buffered_def putFile_same)
next
  case False
  then show ?thesis
    using assms(1) File_Write_hasRoom[OF assms(2,3)]
    by (simp add: bufio_Flush_def Buffered_def)
qed

lemma bufio_Write_loop_hasRoom:
  assumes "werr b = None" and "Files s (wr b) = Some c"
    and "hasRoom w (wr b) (length c + length (buf b) + length p)"
  shows "\<exists>p' b' c'. bufio_Write_loop w b p nn s
            = ((p', nn + length p - length p'), b', putFile (wr b) c' s)
          \<and> werr b' = None \<and> wr b' = wr b \<and> c' @ buf b' @ p' = c @ buf b @ p
          \<and> length p' \<le> Available b' \<and> length p' \<le> length p"
  using assms
proof (induction w b p nn s arbitrary: c rule: bufio_Write_loop.induct)
  case (1 w b p nn s)
  show ?case
  proof (cases "length p > Available b \<and> werr b = None")
    case False
    then have "bufio_Write_loop w b p nn s = ((p, nn), b, s)"
      by (subst bufio_Write_loop.simps) (simp only: if_False)
    with False "1.prems" show ?thesis
      by - (rule exI[of _ p], rule exI[of _ b], rule exI[of _ c], simp add: putFile_same)
  next
    case True
    show ?thesis
    proof (cases "Buffered b = 0")
      case empty: True
      let ?s' = "putFile (wr b) (c @ p) s"
      have room: "hasRoom w (wr b) (length c + length p)"
        using "1.prems"(3) by (rule hasRoom_mono) simp
      have fw: "File_Write w (wr b) p s = ((length p, None), ?s')"
        using File_Write_hasRoom[OF "1.prems"(2) room] .
      have step: "bufio_Write_loop w b p nn s
                    = bufio_Write_loop w (b\<lparr>werr := None\<rparr>) [] (nn + length p) ?s'"
        using True empty fw by (subst bufio_Write_loop.simps) simp
      have stop: "bufio_Write_loop w (b\<lparr>werr := None\<rparr>) [] (nn + length p) ?s'
                  = (([], nn + length p), b\<lparr>werr := None\<rparr>, ?s')"
        by (subst bufio_Write_loop.simps) simp
      have "b\<lparr>werr := None\<rparr> = b" using "1.prems"(1) by simp
      with step stop have "bufio_Write_loop w b p nn s = (([], nn + length p), b, ?s')"
        by simp
      with "1.prems" empty show ?thesis
        by - (rule exI[of _ "[]"], rule exI[of _ b], rule exI[of _ "c @ p"],
              simp add: Buffered_def)
    next
      case nonempty: False
      define n where "n = min (Available b) (length p)"
      let ?b1 = "b\<lparr>buf := buf b @ take n p\<rparr>"
      let ?b2 = "b\<lparr>buf := []\<rparr>"
      let ?s' = "putFile (wr b) (c @ buf b @ take n p) s"
      have nle: "n \<le> length p" by (simp add: n_def)
      have "hasRoom w (wr b) (length c + (length (buf b) + n))"
        by (rule hasRoom_mono[OF "1.prems"(3)]) (use nle in simp)
      then have room1: "hasRoom w (wr ?b1) (length c + length (buf ?b1))"
        using nle by simp
      have fl: "bufio_Flush w ?b1 s = (None, ?b2, ?s')"
        using bufio_Flush_hasRoom[of ?b1 s c w] "1.prems"(1,2) room1 by simp
      have step: "bufio_Write_loop w b p nn s = bufio_Write_loop w ?b2 (drop n p) (nn + n) ?s'"
        using True nonempty fl by (subst bufio_Write_loop.simps) (simp add: n_def Let_def)
      have q2: "werr ?b2 = None"
        using "1.prems" by simp
      have q3: "Files ?s' (wr ?b2) = Some (c @ buf b @ take n p)"
        by (simp add: Files_putFile)
      have "hasRoom w (wr b) (length c + (length (buf b) + length p))"
        by (rule hasRoom_mono[OF "1.prems"(3)]) simp
      then have q4: "hasRoom w (wr ?b2)
                  (length (c @ buf b @ take n p) + length (buf ?b2) + length (drop n p))"
        using nle by simp
      have "\<exists>p' b' c'. bufio_Write_loop w ?b2 (drop n p) (nn + n) ?s'
            = ((p', nn + n + length (drop n p) - length p'), b', putFile (wr ?b2) c' ?s')
          \<and> werr b' = None \<and> wr b' = wr ?b2
          \<and> c' @ buf b' @ p' = (c @ buf b @ take n p) @ buf ?b2 @ drop n p
          \<and> length p' \<le> Available b' \<and> length p' \<le> length (drop n p)"
        by (rule "1.IH"(2)[OF True nonempty n_def fl[symmetric] refl q2 q3 q4])
      then obtain p' b' c' where
        r: "bufio_Write_loop w ?b2 (drop n p) (nn + n) ?s'
            = ((p', nn + n + length (drop n p) - length p'), b', putFile (wr ?b2) c' ?s')"
        and props: "werr b' = None" "wr b' = wr ?b2"
          "c' @ buf b' @ p' = (c @ buf b @ take n p) @ buf ?b2 @ drop n p"
          "length p' \<le> Available b'" "length p' \<le> length (drop n p)"
        by blast
      from nle have cnt: "nn + n + length (drop n p) - length p' = nn + length p - length p'"
        by simp
      from step r props cnt show ?thesis
        by - (rule exI[of _ p'], rule exI[of _ b'], rule exI[of _ c'], simp add: putFile_twice)
    qed
  qed
qed

lemma bufio_Write_hasRoom:
  assumes "werr b = None" and "Files s (wr b) = Some c"
    and "hasRoom w (wr b) (length c + length (buf b) + length p)"
  shows "\<exists>b' c'. bufio_Write w b p s = ((length p, None), b', putFile (wr b) c' s)
          \<and> werr b' = None \<and> wr b' = wr b \<and> c' @ buf b' = c @ buf b @ p"
proof -
  obtain p' b1 c' where
    loop: "bufio_Write_loop w b p 0 s = ((p', 0 + length p - length p'), b1, putFile (wr b) c' s)"
    and props: "werr b1 = None" "wr b1 = wr b" "c' @ buf b1 @ p' = c @ buf b @ p"
      "length p' \<le> Available b1" "length p' \<le> length p"
    using bufio_Write_loop_hasRoom[OF assms, of 0] by blast
  let ?b' = "b1\<lparr>buf := buf b1 @ p'\<rparr>"
  from loop props have "bufio_Write w b p s = ((length p, None), ?b', putFile (wr b) c' s)"
    by (simp add: bufio_Write_def)
  moreover have "werr ?b' = None" "wr ?b' = wr b" "c' @ buf ?b' = c @ buf b @ p"
    using props by simp_all
  ultimately show ?thesis by blast
qed

lemma Body_WriteTo_hasRoom:
  assumes "werr b = None" and "Files s (wr b) = Some c"
    and "hasRoom w (wr b) (length c + length (buf b) + length (concat cs))"
  shows "\<exists>b' c'. Body_WriteTo w b cs rerr written s
            = ((written + int (length (concat cs)), rerr), b', putFile (wr b) c' s)
          \<and> werr b' = None \<and> wr b' = wr b \<and> c' @ buf b' = c @ buf b @ concat cs"
  using assms
proof (induction cs arbitrary: b s c written)
  case Nil
  then show ?case
    by - (rule exI[of _ b], rule exI[of _ c], simp add: putFile_same)
next
  case (Cons x cs)
  show ?case
  proof (cases "x = []")
    case True
    with Cons.IH[OF Cons.prems(1,2), of written] Cons.prems(3) show ?thesis by simp
  next
    case False
    have room1: "hasRoom w (wr b) (length c + length (buf b) + length x)"
      using Cons.prems(3) by (rule hasRoom_mono) simp
    obtain b1 c1 where
      wr1: "bufio_Write w b x s = ((length x, None), b1, putFile (wr b) c1 s)"
      and p1: "werr b1 = None" "wr b1 = wr b" "c1 @ buf b1 = c @ buf b @ x"
      using bufio_Write_hasRoom[OF Cons.prems(1,2) room1] by blast
    have q3: "Files (putFile (wr b) c1 s) (wr b1) = Some c1"
      using p1 by (simp add: Files_putFile)
    have "length c1 + length (buf b1) = length c + length (buf b) + length x"
      using p1(3) by (metis length_append add.assoc)
    then have room2: "hasRoom w (wr b1) (length c1 + length (buf b1) + length (concat cs))"
      using Cons.prems(3) p1(2) by (simp add: add.assoc)
    obtain b2 c2 where
      rest: "Body_WriteTo w b1 cs rerr (written + int (length x)) (putFile (wr b) c1 s)
               = ((written + int (length x) + int (length (concat cs)), rerr), b2,
                  putFile (wr b1) c2 (putFile (wr b) c1 s))"
      and p2: "werr b2 = None" "wr b2 = wr b1" "c2 @ buf b2 = c1 @ buf b1 @ concat cs"
      using Cons.IH[OF p1(1) q3 room2, of "written + int (length x)"] by blast
    from False wr1 rest p1 have
      "Body_WriteTo w b (x # cs) rerr written s
         = ((written + int (length (concat (x # cs))), rerr), b2, putFile (wr b) c2 s)"
      by (simp add: putFile_twice)
    moreover have "c2 @ buf b2 = c @ buf b @ concat (x # cs)"
      using p1 p2 by (metis append.assoc concat.simps(2))
    ultimately show ?thesis
      using p1 p2 by - (rule exI[of _ b2], rule exI[of _ c2], simp)
  qed
qed

lemma io_Copy_fresh_hasRoom:
  assumes "Files s f = Some []" and "hasRoom w f (length (concat (Chunks src)))"
    and "ReadErr src = None"
  shows "\<exists>b' c'. io_Copy w (bufio_NewWriter f) src s
            = ((int (length (concat (Chunks src))), None), b', putFile f c' s)
          \<and> werr b' = None \<and> wr b' = f \<and> c' @ buf b' = concat (Chunks src)"
proof (cases "WriterTo src")
  case True
  have q: "werr (bufio_NewWriter f) = None" "Files s (wr (bufio_NewWriter f)) = Some []"
    "hasRoom w (wr (bufio_NewWriter f))
       (length ([] :: byte list) + length (buf (bufio_NewWriter f)) + length (concat (Chunks src)))"
    using assms by (simp_all add: bufio_NewWriter_def)
  obtain b' c' where
    "Body_WriteTo w (bufio_NewWriter f) (Chunks src) (ReadErr src) 0 s
       = ((0 + int (length (concat (Chunks src))), ReadErr src), b',
          putFile (wr (bufio_NewWriter f)) c' s)"
    "werr b' = None" "wr b' = wr (bufio_NewWriter f)"
    "c' @ buf b' = [] @ buf (bufio_NewWriter f) @ concat (Chunks src)"
    using Body_WriteTo_hasRoom[OF q, of "ReadErr src" 0] by blast
  with True assms(3) show ?thesis
    by - (rule exI[of _ b'], rule exI[of _ c'], simp add: io_Copy_def bufio_NewWriter_def)
next
  case False
  have room: "hasRoom w f (length ([] :: byte list) + length (concat (Chunks src)))"
    using assms(2) by simp
  from False assms(3) bufio_ReadFrom_fresh[OF assms(1) room, of "ReadErr src"] show ?thesis
    by - (rule exI[of _ "(bufio_NewWriter f)\<lparr>werr := ReadErr src\<rparr>"],
          rule exI[of _ "concat (Chunks src)"], simp add: io_Copy_def bufio_NewWriter_def)
qed

text \<open>
  C9 (as the code has it): when the GET exchange yields a response with status 200
  whose body is delivered in full (\<open>N\<close> bytes, in any chunking, read through \<open>Read\<close>
  or through \<open>WriteTo\<close>), and the file at \<open>savePath\<close> can be opened and can hold \<open>N\<close>
  bytes, \<open>Download\<close> returns \<open>N\<close> and no error, the file at \<open>savePath\<close> holds exactly
  the \<open>N\<close> bytes of the body afterwards, and the body and the file have each been
  closed once.
\<close>

theorem Download_writes_whole_body:
  assumes "NewRequest w ''GET'' url None = Inr req"
    and "Do c req = Inr res"
    and "StatusCode res = 200"
    and "ReadErr (Body res) = None"
    and "OpenFile_err w savePath = None"
    and "hasRoom w savePath (length (concat (Chunks (Body res))))"
  shows "fst (Client_Download w c url savePath s)
           = (int (length (concat (Chunks (Body res)))), None)
       \<and> Files (snd (Client_Download w c url savePath s)) savePath
           = Some (concat (Chunks (Body res)))
       \<and> BodyClosed (snd (Client_Download w c url savePath s)) = Suc (BodyClosed s)
       \<and> FileClosed (snd (Client_Download w c url savePath s)) = Suc (FileClosed s)"
proof -
  let ?s1 = "putFile savePath [] s"
  let ?data = "concat (Chunks (Body res))"
  have op: "os_OpenFile w savePath s = (Inr savePath, ?s1)"
    using assms(5) by (simp add: os_OpenFile_def)
  have f1: "Files ?s1 savePath = Some []"
    by (simp add: Files_putFile)
  obtain b1 c1 where
    cp: "io_Copy w (bufio_NewWriter savePath) (Body res) ?s1
           = ((int (length ?data), None), b1, putFile savePath c1 ?s1)"
    and e1: "werr b1 = None" and p1: "wr b1 = savePath" "c1 @ buf b1 = ?data"
    using io_Copy_fresh_hasRoom[OF f1 assms(6,4)] by blast
  have room: "hasRoom w (wr b1) (length c1 + length (buf b1))"
    using assms(6) p1 by (metis length_append)
  have fl: "bufio_Flush w b1 (putFile savePath c1 s)
              = (None, b1\<lparr>buf := []\<rparr>, putFile savePath ?data s)"
    using bufio_Flush_hasRoom[OF e1 _ room, of "putFile savePath c1 s" ] p1
    by (simp add: Files_putFile putFile_twice)
  have run: "Client_Download w c url savePath s
               = ((int (length ?data), None), File_Close (Body_Close (putFile savePath ?data s)))"
    using assms(1-4) op cp fl
    by (simp add: Client_Download_def putFile_twice)
  show ?thesis
    unfolding run
    by (simp add: File_Close_def Body_Close_def putFile_def)
qed

theorem Download_writes_whole_body_witness:
  "fst (Client_Download smallDiskWorld (HTTPClient smallDiskWorld) ''http://host/f'' ''/tmp/f'' emptyState)
     = (3, None)
   \<and> Files (snd (Client_Download smallDiskWorld (HTTPClient smallDiskWorld)
                 ''http://host/f'' ''/tmp/f'' emptyState)) ''/tmp/f'' = Some abc
   \<and> BodyClosed (snd (Client_Download smallDiskWorld (HTTPClient smallDiskWorld)
                 ''http://host/f'' ''/tmp/f'' emptyState)) = 1
   \<and> FileClosed (snd (Client_Download smallDiskWorld (HTTPClient smallDiskWorld)
                 ''http://host/f'' ''/tmp/f'' emptyState)) = 1"
proof -
  let ?req = "\<lparr>Method = ''GET'', URL = ''http://host/f'', ReqHeader = Map.empty, ReqBody = None\<rparr>"
  let ?res = "plainResponse 200 [abc]"
  have h1: "NewRequest smallDiskWorld ''GET'' ''http://host/f'' None = Inr ?req"
    by (simp add: NewRequest_def smallDiskWorld_def fixedWorld_def)
  have h2: "Do (HTTPClient smallDiskWorld) ?req = Inr ?res"
    by (simp add: smallDiskWorld_def fixedWorld_def)
  have h3: "StatusCode ?res = 200" and h4: "ReadErr (Body ?res) = None"
    by (simp_all add: plainResponse_def)
  have h5: "OpenFile_err smallDiskWorld ''/tmp/f'' = None"
    by (simp add: smallDiskWorld_def fixedWorld_def)
  have h6: "hasRoom smallDiskWorld ''/tmp/f'' (length (concat (Chunks (Body ?res))))"
    by (simp add: hasRoom_def smallDiskWorld_def fixedWorld_def plainResponse_def abc_def)
  have body: "concat (Chunks (Body ?res)) = abc" and len: "length abc = 3"
    by (simp_all add: plainResponse_def abc_def)
  from Download_writes_whole_body[OF h1 h2 h3 h4 h5 h6, of emptyState] body len
  show ?thesis by (simp add: emptyState_def)
qed

text \<open>
  C9 as stated fails: the exchange yields a 200 response with a three-byte body, but
  the file cannot be opened, and \<open>Download\<close> returns 0 and the error of \<open>os.OpenFile\<close>
  and writes no file; on a full disk it returns 0 and the write error.
\<close>

theorem Download_counterexample:
  "StatusCode (plainResponse 200 [abc]) = 200
   \<and> length (concat (Chunks (Body (plainResponse 200 [abc])))) = 3
   \<and> fst (Client_Download readOnlyWorld (HTTPClient readOnlyWorld) ''http://host/f'' ''/tmp/f'' emptyState)
       = (0, Some (LibError ''permission denied''))
   \<and> Files (snd (Client_Download readOnlyWorld (HTTPClient readOnlyWorld)
                   ''http://host/f'' ''/tmp/f'' emptyState)) ''/tmp/f'' = None
   \<and> fst (Client_Download fullDiskWorld (HTTPClient fullDiskWorld) ''http://host/f'' ''/tmp/f'' emptyState)
       = (0, Some (LibError ''no space left on device''))
   \<and> Files (snd (Client_Download fullDiskWorld (HTTPClient fullDiskWorld)
                   ''http://host/f'' ''/tmp/f'' emptyState)) ''/tmp/f'' = Some []"
  by code_simp

end
